theory Spec2Isabelle
  imports Main "HOL-Library.Word"
begin

section \<open>Asset identity model (asset.go)\<close>

text \<open>
  Go strings are byte sequences compared byte by byte; they are modelled as
  \<^typ>\<open>string\<close> (lists of 8-bit characters). \<open>Asset\<close>, \<open>NativeAsset\<close>,
  \<open>AssetType\<close>, \<open>ChainType\<close> and \<open>AssetID\<close> are all declared as
  \<open>string\<close> in the source and conversions between them are the identity.
\<close>

type_synonym Asset = string
type_synonym NativeAsset = string
type_synonym AssetType = string
type_synonym ChainType = string
type_synonym AssetID = string

subsection \<open>The enumerated native assets\<close>

definition BCH :: NativeAsset where "BCH = ''BCH''"
definition BTC :: NativeAsset where "BTC = ''BTC''"
definition DOGE :: NativeAsset where "DOGE = ''DOGE''"
definition ACA :: NativeAsset where "ACA = ''ACA''"
definition ArbETH :: NativeAsset where "ArbETH = ''ArbETH''"
definition ATOM :: NativeAsset where "ATOM = ''ATOM''"
definition AurETH :: NativeAsset where "AurETH = ''AurETH''"
definition AVAX :: NativeAsset where "AVAX = ''AVAX''"
definition BNB :: NativeAsset where "BNB = ''BNB''"
definition CELO :: NativeAsset where "CELO = ''CELO''"
definition ETC :: NativeAsset where "ETC = ''ETC''"
definition ETH :: NativeAsset where "ETH = ''ETH''"
definition FTM :: NativeAsset where "FTM = ''FTM''"
definition KAR :: NativeAsset where "KAR = ''KAR''"
definition KLAY :: NativeAsset where "KLAY = ''KLAY''"
definition LUNA :: NativeAsset where "LUNA = ''LUNA''"
definition MATIC :: NativeAsset where "MATIC = ''MATIC''"
definition OptETH :: NativeAsset where "OptETH = ''OptETH''"
definition ROSE :: NativeAsset where "ROSE = ''ROSE''"
definition SOL :: NativeAsset where "SOL = ''SOL''"

lemmas native_defs =
  BCH_def BTC_def DOGE_def ACA_def ArbETH_def ATOM_def AurETH_def AVAX_def BNB_def
  CELO_def ETC_def ETH_def FTM_def KAR_def KLAY_def LUNA_def MATIC_def OptETH_def
  ROSE_def SOL_def

text \<open>The constant block of the source, in its order: three UTXO chains, then the
  account-based ones.\<close>

definition utxo_natives :: "NativeAsset list" where
  "utxo_natives = [BCH, BTC, DOGE]"

definition account_natives :: "NativeAsset list" where
  "account_natives =
     [ACA, ArbETH, ATOM, AurETH, AVAX, BNB, CELO, ETC, ETH, FTM, KAR, KLAY, LUNA,
      MATIC, OptETH, ROSE, SOL]"

definition native_assets :: "NativeAsset list" where
  "native_assets = utxo_natives @ account_natives"

definition AssetTypeNative :: AssetType where "AssetTypeNative = ''native''"
definition AssetTypeToken :: AssetType where "AssetTypeToken = ''token''"

definition ChainTypeUnknown :: ChainType where "ChainTypeUnknown = ''unknown''"
definition ChainTypeUTXO :: ChainType where "ChainTypeUTXO = ''utxo''"
definition ChainTypeAccount :: ChainType where "ChainTypeAccount = ''account''"

subsection \<open>Classification\<close>

text \<open>\<open>Asset.AssetType\<close>: a switch on the string with two native cases and a default.\<close>

definition Asset_AssetType :: "Asset \<Rightarrow> AssetType" where
  "Asset_AssetType asset =
     (if asset = BCH \<or> asset = BTC \<or> asset = DOGE then AssetTypeNative
      else if asset = ACA \<or> asset = ArbETH \<or> asset = ATOM \<or> asset = AurETH
            \<or> asset = AVAX \<or> asset = BNB \<or> asset = CELO \<or> asset = ETC
            \<or> asset = ETH \<or> asset = FTM \<or> asset = KAR \<or> asset = KLAY
            \<or> asset = LUNA \<or> asset = MATIC \<or> asset = OptETH \<or> asset = ROSE
            \<or> asset = SOL then AssetTypeNative
      else AssetTypeToken)"

text \<open>\<open>NativeAsset.ChainType\<close>: the same switch, with the chain type of each group.\<close>

definition NativeAsset_ChainType :: "NativeAsset \<Rightarrow> ChainType" where
  "NativeAsset_ChainType native =
     (if native = BCH \<or> native = BTC \<or> native = DOGE then ChainTypeUTXO
      else if native = ACA \<or> native = ArbETH \<or> native = ATOM \<or> native = AurETH
            \<or> native = AVAX \<or> native = BNB \<or> native = CELO \<or> native = ETC
            \<or> native = ETH \<or> native = FTM \<or> native = KAR \<or> native = KLAY
            \<or> native = LUNA \<or> native = MATIC \<or> native = OptETH \<or> native = ROSE
            \<or> native = SOL then ChainTypeAccount
      else ChainTypeUnknown)"

subsection \<open>The two library functions the canonicalizer calls\<close>

text \<open>
  \<open>strings.ToUpper\<close> on a string of ASCII bytes maps each of the letters \<open>a\<close> to
  \<open>z\<close> (bytes 97 to 122) to its capital (32 lower) and leaves every other byte as it is.
  The model is this byte-wise map; the theorems that range over all strings say that
  their strings are ASCII (\<open>is_ascii\<close>), the inputs on which the model and the library
  agree.
\<close>

definition upper_byte :: "char \<Rightarrow> char" where
  "upper_byte c =
     (if 97 \<le> (of_char c :: nat) \<and> (of_char c :: nat) \<le> 122
      then char_of ((of_char c :: nat) - 32) else c)"

definition ToUpper :: "string \<Rightarrow> string" where
  "ToUpper s = map upper_byte s"


text \<open>
  \<open>strings.Split(s, sep)\<close> for a one-byte separator: the pieces between the
  occurrences of the separator, one more piece than there are occurrences (so the empty
  string splits into one empty piece).
\<close>

fun Split :: "string \<Rightarrow> char \<Rightarrow> string list" where
  "Split [] sep = [[]]"
| "Split (c # cs) sep =
     (if c = sep then [] # Split cs sep
      else (c # hd (Split cs sep)) # tl (Split cs sep))"

subsection \<open>Canonicalization\<close>

definition parseAssetAndNativeAsset :: "string \<Rightarrow> string \<Rightarrow> string \<times> string" where
  "parseAssetAndNativeAsset asset nativeAsset =
     (if asset = [] \<and> nativeAsset = [] then ([], [])
      else
        let asset1 = (if asset = [] \<and> nativeAsset \<noteq> [] then nativeAsset else asset);
            assetSplit = Split asset1 (CHR ''.'');
            suffixed = (length assetSplit = 2
                        \<and> Asset_AssetType (assetSplit ! 1) = AssetTypeNative);
            asset2 = (if suffixed then assetSplit ! 0 else asset1);
            native1 = (if suffixed \<and> nativeAsset = [] then assetSplit ! 1 else nativeAsset);
            validNative = (Asset_AssetType asset2 = AssetTypeNative);
            native2 = (if native1 = [] then (if validNative then asset2 else ''ETH'')
                       else native1)
        in (asset2, ToUpper native2))"

definition GetAssetIDFromAsset :: "string \<Rightarrow> string \<Rightarrow> AssetID" where
  "GetAssetIDFromAsset asset nativeAsset =
     (let (asset1, nativeAsset1) = parseAssetAndNativeAsset asset nativeAsset;
          asset2 = ToUpper asset1;
          validNative = (Asset_AssetType asset2 = AssetTypeNative)
      in if asset2 = nativeAsset1 then asset2
         else if nativeAsset1 = ''ETH'' \<and> \<not> validNative then asset2
         else asset2 @ ''.'' @ nativeAsset1)"

text \<open>The test of \<open>parseAssetAndNativeAsset\<close> that decides whether a string is read as
  \<open>SYMBOL.CHAIN\<close>: exactly two pieces, the second an enumerated native asset.\<close>

definition suffixed :: "string \<Rightarrow> bool" where
  "suffixed s = (length (Split s (CHR ''.'')) = 2
      \<and> Asset_AssetType (Split s (CHR ''.'') ! 1) = AssetTypeNative)"

section \<open>Amounts (amount.go)\<close>

text \<open>
  \<open>AmountBlockchain\<close> is a \<open>big.Int\<close>: an unbounded integer. \<open>big.Int.Uint64\<close>
  returns the low 64 bits of the magnitude of its receiver (the library documents the
  result as undefined when the value does not fit); \<open>SetUint64\<close> stores the value of
  the machine word.
\<close>

type_synonym AmountBlockchain = int
type_synonym uint64 = "64 word"

definition AmountBlockchain_Uint64 :: "AmountBlockchain \<Rightarrow> uint64" where
  "AmountBlockchain_Uint64 amount = word_of_int \<bar>amount\<bar>"

definition NewAmountBlockchainFromUint64 :: "uint64 \<Rightarrow> AmountBlockchain" where
  "NewAmountBlockchainFromUint64 u64 = uint u64"

section \<open>The Cosmos adapter (chain/cosmos)\<close>

subsection \<open>Values of the adapter\<close>

text \<open>
  A Go \<open>error\<close> is \<open>None\<close> for \<open>nil\<close> and \<open>Some\<close> of its message otherwise. A slice
  is an optional list: \<open>None\<close> is the \<open>nil\<close> slice, \<open>Some []\<close> an empty one; both have
  length 0. A call either returns or panics. Pointers held in interface values
  (messages, signature data) are taken to point to a value.
\<close>

type_synonym error = "string option"
type_synonym bytes = "8 word list"
type_synonym Address = string

definition elems :: "'a list option \<Rightarrow> 'a list" where
  "elems s = (case s of None \<Rightarrow> [] | Some xs \<Rightarrow> xs)"

datatype panic = IndexOutOfRange | InterfaceConversion | NilDereference

datatype 'a outcome = Returns 'a | Panics panic

text \<open>A coin of the SDK: a denomination and an integer amount.\<close>

record Coin =
  Denom :: string
  Coin_Amount :: int

text \<open>The messages of a transaction: the bank transfer the adapter recognizes, and
  every other kind (named by its type URL).\<close>

datatype Msg =
    MsgSend (FromAddress: string) (ToAddress: string) (Amount: "Coin list")
  | OtherMsg string

text \<open>An SDK transaction value as the adapter sees it: its message list, and its fee
  list when its type has the \<open>FeeTx\<close> capability (\<open>None\<close> when it has not).\<close>

record SdkTx =
  GetMsgs :: "Msg list"
  GetFee :: "Coin list option"

datatype SignatureData =
    SingleSignatureData (SignMode: int) (Signature: bytes)
  | MultiSignatureData "SignatureData list"

text \<open>A signer slot; its \<open>Data\<close> is an interface value, \<open>None\<close> when \<open>nil\<close>.\<close>

record SignatureV2 =
  PubKey :: bytes
  Data :: "SignatureData option"
  Sequence :: uint64

text \<open>The transaction builder: the transaction \<open>GetTx\<close> hands out (an interface value,
  \<open>None\<close> when \<open>nil\<close>) and the signatures \<open>SetSignatures\<close> has stored.\<close>

record TxBuilder =
  GetTx :: "SdkTx option"
  Signatures :: "SignatureV2 list"

definition SetSignatures :: "TxBuilder \<Rightarrow> SignatureV2 list \<Rightarrow> TxBuilder" where
  "SetSignatures b sigs = b\<lparr>Signatures := sigs\<rparr>"

text \<open>The adapter's transaction. Interface and function fields are \<open>None\<close> when
  \<open>nil\<close>; the encoder returns serialized bytes and an error.\<close>

record Tx =
  CosmosTx :: "SdkTx option"
  ParsedTransfer :: "Msg option"
  CosmosTxBuilder :: "TxBuilder option"
  CosmosTxEncoder :: "(SdkTx \<Rightarrow> bytes option \<times> error) option"
  SigsV2 :: "SignatureV2 list option"
  TxDataToSign :: "bytes option"

subsection \<open>Hex encoding\<close>

text \<open>\<open>hex.EncodeToString\<close>: two lower-case hexadecimal digits for every byte.\<close>

definition hex_digit :: "nat \<Rightarrow> char" where
  "hex_digit n = ''0123456789abcdef'' ! n"

definition EncodeToString :: "bytes \<Rightarrow> string" where
  "EncodeToString src =
     concat (map (\<lambda>b. [hex_digit (unat b div 16), hex_digit (unat b mod 16)]) src)"

subsection \<open>Serialization, hash and signing payload (tx.go)\<close>

definition Tx_Serialize :: "Tx \<Rightarrow> bytes option \<times> error" where
  "Tx_Serialize tx =
     (case CosmosTxEncoder tx of
        None \<Rightarrow> (Some [], Some ''transaction not initialized'')
      | Some encoder \<Rightarrow>
          let txToEncode = (case CosmosTxBuilder tx of
                              Some builder \<Rightarrow> GetTx builder
                            | None \<Rightarrow> CosmosTx tx)
          in case txToEncode of
               None \<Rightarrow> (Some [], Some ''transaction not initialized'')
             | Some t \<Rightarrow> encoder t)"

text \<open>\<open>tmhash.Sum\<close> (SHA-256 of the bytes, from the Tendermint library) is a parameter
  of \<open>Hash\<close>; what the adapter relies on is that a digest has 32 bytes.\<close>

definition Tx_Hash :: "(bytes \<Rightarrow> bytes) \<Rightarrow> Tx \<Rightarrow> string" where
  "Tx_Hash tmhash_Sum tx =
     (let (serialized, err) = Tx_Serialize tx
      in if err \<noteq> None \<or> serialized = None \<or> length (elems serialized) = 0 then ''''
         else EncodeToString (tmhash_Sum (elems serialized)))"

definition Tx_Sighash :: "Tx \<Rightarrow> bytes option \<times> error" where
  "Tx_Sighash tx =
     (if TxDataToSign tx = None then (None, Some ''transaction not initialized'')
      else (TxDataToSign tx, None))"

text \<open>
  \<open>AddSignature\<close> writes into the first element of the shared slice and into the
  builder, so the model returns the transaction with both updated, next to the error.
  The type assertion \<open>data.(*SingleSignatureData)\<close> has no second result: it panics on
  any other dynamic type and on \<open>nil\<close>.
\<close>

definition Tx_AddSignature :: "Tx \<Rightarrow> bytes \<Rightarrow> (error \<times> Tx) outcome" where
  "Tx_AddSignature tx signature =
     (if SigsV2 tx = None \<or> length (elems (SigsV2 tx)) < 1 \<or> CosmosTxBuilder tx = None
      then Returns (Some ''transaction not initialized'', tx)
      else
        let sigs = elems (SigsV2 tx);
            data = Data (sigs ! 0)
        in case data of
             Some (SingleSignatureData signMode old) \<Rightarrow>
               let sigs' = sigs[0 := (sigs ! 0)
                             \<lparr>Data := Some (SingleSignatureData signMode signature)\<rparr>];
                   builder' = SetSignatures (the (CosmosTxBuilder tx)) sigs'
               in Returns (None, tx\<lparr>SigsV2 := Some sigs', CosmosTxBuilder := Some builder'\<rparr>)
           | _ \<Rightarrow> Panics InterfaceConversion)"

subsection \<open>Transfer extraction (tx.go)\<close>

text \<open>The loop of \<open>ParseTransfer\<close>: every message is visited in order, and each
  \<open>MsgSend\<close> is assigned to \<open>ParsedTransfer\<close>; the loop has no exit.\<close>

fun parse_loop :: "Msg list \<Rightarrow> Tx \<Rightarrow> Tx" where
  "parse_loop [] tx = tx"
| "parse_loop (msg # msgs) tx =
     parse_loop msgs
       (case msg of
          MsgSend f t a \<Rightarrow> tx\<lparr>ParsedTransfer := Some msg\<rparr>
        | OtherMsg k \<Rightarrow> tx)"

text \<open>\<open>GetMsgs\<close> is called on the interface value \<open>CosmosTx\<close>: a \<open>nil\<close> one panics.\<close>

definition Tx_ParseTransfer :: "Tx \<Rightarrow> Tx outcome" where
  "Tx_ParseTransfer tx =
     (case CosmosTx tx of
        None \<Rightarrow> Panics NilDereference
      | Some t \<Rightarrow> Returns (parse_loop (GetMsgs t) tx))"

definition Tx_From :: "Tx \<Rightarrow> Address" where
  "Tx_From tx =
     (case ParsedTransfer tx of
        Some (MsgSend from to amount) \<Rightarrow> from
      | _ \<Rightarrow> '''')"

definition Tx_To :: "Tx \<Rightarrow> Address" where
  "Tx_To tx =
     (case ParsedTransfer tx of
        Some (MsgSend from to amount) \<Rightarrow> to
      | _ \<Rightarrow> '''')"

text \<open>\<open>Amount\<close> and \<open>Fee\<close> index element 0 of a list without looking at its length.\<close>

definition Tx_Amount :: "Tx \<Rightarrow> AmountBlockchain outcome" where
  "Tx_Amount tx =
     (case ParsedTransfer tx of
        Some (MsgSend from to amount) \<Rightarrow>
          (if 0 < length amount then Returns (Coin_Amount (amount ! 0))
           else Panics IndexOutOfRange)
      | _ \<Rightarrow> Returns (NewAmountBlockchainFromUint64 0))"

definition Tx_Fee :: "Tx \<Rightarrow> AmountBlockchain outcome" where
  "Tx_Fee tx =
     (case CosmosTx tx of
        Some t \<Rightarrow>
          (case GetFee t of
             Some fee \<Rightarrow>
               (if 0 < length fee then Returns (Coin_Amount (fee ! 0))
                else Panics IndexOutOfRange)
           | None \<Rightarrow> Returns (NewAmountBlockchainFromUint64 0))
      | None \<Rightarrow> Returns (NewAmountBlockchainFromUint64 0))"

text \<open>The first and the last recognized transfer of a message list.\<close>

definition is_transfer :: "Msg \<Rightarrow> bool" where
  "is_transfer msg = (case msg of MsgSend f t a \<Rightarrow> True | OtherMsg k \<Rightarrow> False)"

definition first_transfer :: "Msg list \<Rightarrow> Msg option" where
  "first_transfer msgs = List.find is_transfer msgs"

definition last_transfer :: "Msg list \<Rightarrow> Msg option" where
  "last_transfer msgs = List.find is_transfer (rev msgs)"

subsection \<open>Address derivation (address.go)\<close>

text \<open>Modelled from the spec: the variant tag of a possible address, with the
  \<open>default\<close> variant the builder uses; the root package's declarations of
  \<open>PossibleAddress\<close> and \<open>AddressTypeDefault\<close> are not among the sources. The
  builder reads the record's two fields \<open>Address\<close> and \<open>Type\<close>.\<close>

datatype AddressType = AddressTypeDefault | AddressTypeVariant string

record PossibleAddress =
  Address :: Address
  Type :: AddressType

definition GetAddressFromPublicKey :: "bytes \<Rightarrow> Address \<times> error" where
  "GetAddressFromPublicKey publicKeyBytes = ('''', Some ''not implemented'')"

definition GetAllPossibleAddressesFromPublicKey ::
    "bytes \<Rightarrow> PossibleAddress list \<times> error" where
  "GetAllPossibleAddressesFromPublicKey publicKeyBytes =
     (let (address, err) = GetAddressFromPublicKey publicKeyBytes
      in ([\<lparr>Address = address, Type = AddressTypeDefault\<rparr>], err))"

subsection \<open>Sample transactions\<close>

definition coin :: "string \<Rightarrow> int \<Rightarrow> Coin" where
  "coin d n = \<lparr>Denom = d, Coin_Amount = n\<rparr>"

definition empty_tx :: Tx where
  "empty_tx = \<lparr>CosmosTx = None, ParsedTransfer = None, CosmosTxBuilder = None,
               CosmosTxEncoder = None, SigsV2 = None, TxDataToSign = None\<rparr>"

text \<open>Two transfers with an unrecognized message between them.\<close>

definition two_sends :: "Msg list" where
  "two_sends =
     [MsgSend ''alice'' ''bob'' [coin ''uatom'' 5],
      OtherMsg ''/cosmos.staking.v1beta1.MsgDelegate'',
      MsgSend ''carol'' ''dave'' [coin ''uatom'' 7]]"

definition two_sends_tx :: Tx where
  "two_sends_tx = empty_tx\<lparr>CosmosTx := Some \<lparr>GetMsgs = two_sends, GetFee = None\<rparr>\<rparr>"

text \<open>The same transaction with its second transfer projected.\<close>

definition two_sends_parsed :: Tx where
  "two_sends_parsed =
     two_sends_tx\<lparr>ParsedTransfer := Some (MsgSend ''carol'' ''dave'' [coin ''uatom'' 7])\<rparr>"

text \<open>A transfer that carries no coin, a fee-bearing transaction with an empty fee
  list, and a signer slot holding multi-signature data.\<close>

definition no_coin_tx :: Tx where
  "no_coin_tx = empty_tx\<lparr>ParsedTransfer := Some (MsgSend ''alice'' ''bob'' [])\<rparr>"

definition zero_fee_tx :: Tx where
  "zero_fee_tx = empty_tx\<lparr>CosmosTx := Some \<lparr>GetMsgs = [], GetFee = Some []\<rparr>\<rparr>"

definition multisig_tx :: Tx where
  "multisig_tx =
     empty_tx\<lparr>CosmosTxBuilder := Some \<lparr>GetTx = None, Signatures = []\<rparr>,
              SigsV2 := Some [\<lparr>PubKey = [], Data = Some (MultiSignatureData []),
                               Sequence = 0\<rparr>]\<rparr>"

text \<open>A built transaction: one signer slot with single-signature data, a builder, an
  encoder that writes the number of messages as one byte, and a staged payload.\<close>

definition built_tx :: Tx where
  "built_tx =
     \<lparr>CosmosTx = Some \<lparr>GetMsgs = two_sends, GetFee = Some [coin ''uatom'' 2]\<rparr>,
      ParsedTransfer = None,
      CosmosTxBuilder =
        Some \<lparr>GetTx = Some \<lparr>GetMsgs = two_sends, GetFee = Some [coin ''uatom'' 2]\<rparr>,
              Signatures = []\<rparr>,
      CosmosTxEncoder = Some (\<lambda>t. (Some [of_nat (length (GetMsgs t))], None)),
      SigsV2 = Some [\<lparr>PubKey = [2, 3], Data = Some (SingleSignatureData 1 []),
                      Sequence = 0\<rparr>],
      TxDataToSign = Some [1, 2, 3]\<rparr>"

section \<open>Supporting lemmas\<close>








lemma ToUpper_append: "ToUpper (u @ v) = ToUpper u @ ToUpper v"
  by (simp add: ToUpper_def)



lemma ToUpper_dot: "ToUpper ''.'' = ''.''"
  by (simp add: ToUpper_def upper_byte_def)

lemma native_iff: "Asset_AssetType s = AssetTypeNative \<longleftrightarrow> s \<in> set native_assets"
  by (simp add: Asset_AssetType_def AssetTypeNative_def AssetTypeToken_def native_assets_def
      utxo_natives_def account_natives_def)





lemma G_unfold:
  "GetAssetIDFromAsset a h =
     (if ToUpper (fst (parseAssetAndNativeAsset a h)) = snd (parseAssetAndNativeAsset a h)
      then ToUpper (fst (parseAssetAndNativeAsset a h))
      else if snd (parseAssetAndNativeAsset a h) = ''ETH''
              \<and> Asset_AssetType (ToUpper (fst (parseAssetAndNativeAsset a h))) \<noteq> AssetTypeNative
      then ToUpper (fst (parseAssetAndNativeAsset a h))
      else ToUpper (fst (parseAssetAndNativeAsset a h)) @ ''.'' @
           snd (parseAssetAndNativeAsset a h))"
  by (simp add: GetAssetIDFromAsset_def Let_def split: prod.splits)




lemma of_char_less_256: "(of_char c :: nat) < 256"
proof -
  have "(of_char c :: nat) mod 256 < 256" by simp
  then show ?thesis by (simp only: of_char_mod_256)
qed






lemma find_snoc:
  "List.find P (xs @ [x]) =
     (case List.find P xs of None \<Rightarrow> (if P x then Some x else None) | Some y \<Rightarrow> Some y)"
  by (induction xs) auto

lemma parse_loop_last:
  "parse_loop msgs tx =
     (case last_transfer msgs of None \<Rightarrow> tx | Some m \<Rightarrow> tx\<lparr>ParsedTransfer := Some m\<rparr>)"
proof (induction msgs arbitrary: tx)
  case Nil
  then show ?case by (simp add: last_transfer_def)
next
  case (Cons msg msgs)
  show ?case
    by (cases msg)
      (simp_all add: Cons.IH last_transfer_def find_snoc is_transfer_def split: option.splits)
qed

lemma EncodeToString_length: "length (EncodeToString src) = 2 * length src"
  by (induction src) (simp_all add: EncodeToString_def)

lemma native_self_identity_capitals_list:
  "list_all (\<lambda>n. GetAssetIDFromAsset n [] = n \<and> GetAssetIDFromAsset n n = n)
     (filter (\<lambda>n. n \<noteq> ArbETH \<and> n \<noteq> AurETH \<and> n \<noteq> OptETH) native_assets)"
  by code_simp

lemma native_self_identity_capitals:
  assumes "n \<in> set native_assets" and "n \<noteq> ArbETH" and "n \<noteq> AurETH" and "n \<noteq> OptETH"
  shows "GetAssetIDFromAsset n [] = n \<and> GetAssetIDFromAsset n n = n"
proof -
  from assms have "n \<in> set (filter (\<lambda>n. n \<noteq> ArbETH \<and> n \<noteq> AurETH \<and> n \<noteq> OptETH) native_assets)"
    by simp
  with native_self_identity_capitals_list show ?thesis
    unfolding list_all_iff by blast
qed

lemma EncodeToString_empty_iff: "EncodeToString src = [] \<longleftrightarrow> src = []"
  using EncodeToString_length [of src] by (cases src) auto

lemma accessors_return:
  "(\<forall>f t a. ParsedTransfer tx = Some (MsgSend f t a) \<longrightarrow> a \<noteq> []) \<Longrightarrow> \<exists>v. Tx_Amount tx = Returns v"
  "(\<forall>t fee. CosmosTx tx = Some t \<longrightarrow> GetFee t = Some fee \<longrightarrow> fee \<noteq> []) \<Longrightarrow> \<exists>v. Tx_Fee tx = Returns v"
  by (auto simp add: Tx_Amount_def Tx_Fee_def split: option.splits Msg.splits)

section \<open>The claims\<close>

subsection \<open>Canonicalization\<close>




text \<open>
  C2: every enumerated native asset is its own canonical id, with an empty hint and with
  itself as hint, in exactly its enumerated spelling. The canonicalizer capitalizes its
  result, so the three natives spelled with lower-case letters come back as \<open>ARBETH\<close>,
  \<open>AURETH\<close> and \<open>OPTETH\<close>, strings that the classification does not recognize as
  native. (The seventeen natives spelled in capitals are their own id:
  \<open>native_self_identity_capitals\<close>.)
\<close>

theorem native_self_identity_mixed_case:
  "GetAssetIDFromAsset ArbETH '''' = ''ARBETH'' \<and> GetAssetIDFromAsset ArbETH ArbETH = ''ARBETH''
   \<and> GetAssetIDFromAsset AurETH '''' = ''AURETH'' \<and> GetAssetIDFromAsset AurETH AurETH = ''AURETH''
   \<and> GetAssetIDFromAsset OptETH '''' = ''OPTETH'' \<and> GetAssetIDFromAsset OptETH OptETH = ''OPTETH''
   \<and> ''ARBETH'' \<noteq> ArbETH \<and> ''AURETH'' \<noteq> AurETH \<and> ''OPTETH'' \<noteq> OptETH
   \<and> Asset_AssetType ''ARBETH'' = AssetTypeToken
   \<and> Asset_AssetType ''AURETH'' = AssetTypeToken
   \<and> Asset_AssetType ''OPTETH'' = AssetTypeToken"
  by code_simp

text \<open>
  C5: default-chain omission. The four documented examples hold; in general, when the
  resolved chain is \<open>ETH\<close> and the capitalized symbol is not native, the id is the bare
  symbol, and when the symbol differs from the chain and that exception does not apply,
  the id is \<open>SYMBOL.CHAIN\<close>.
\<close>

theorem default_chain_omission:
  "GetAssetIDFromAsset ''USDC'' '''' = ''USDC''
   \<and> GetAssetIDFromAsset ''USDC'' ''ETH'' = ''USDC''
   \<and> GetAssetIDFromAsset ''USDC'' ''SOL'' = ''USDC.SOL''
   \<and> GetAssetIDFromAsset ''USDC.SOL'' '''' = ''USDC.SOL''
   \<and> (snd (parseAssetAndNativeAsset a h) = ''ETH''
        \<and> Asset_AssetType (ToUpper (fst (parseAssetAndNativeAsset a h))) = AssetTypeToken
      \<longrightarrow> GetAssetIDFromAsset a h = ToUpper (fst (parseAssetAndNativeAsset a h)))
   \<and> (ToUpper (fst (parseAssetAndNativeAsset a h)) \<noteq> snd (parseAssetAndNativeAsset a h)
        \<and> \<not> (snd (parseAssetAndNativeAsset a h) = ''ETH''
               \<and> Asset_AssetType (ToUpper (fst (parseAssetAndNativeAsset a h))) = AssetTypeToken)
      \<longrightarrow> GetAssetIDFromAsset a h =
            ToUpper (fst (parseAssetAndNativeAsset a h)) @ ''.'' @
            snd (parseAssetAndNativeAsset a h))"
proof -
  have ex: "GetAssetIDFromAsset ''USDC'' '''' = ''USDC''
      \<and> GetAssetIDFromAsset ''USDC'' ''ETH'' = ''USDC''
      \<and> GetAssetIDFromAsset ''USDC'' ''SOL'' = ''USDC.SOL''
      \<and> GetAssetIDFromAsset ''USDC.SOL'' '''' = ''USDC.SOL''"
    by code_simp
  have tok: "\<And>s. Asset_AssetType s = AssetTypeToken \<longleftrightarrow> Asset_AssetType s \<noteq> AssetTypeNative"
    by (simp add: Asset_AssetType_def AssetTypeNative_def AssetTypeToken_def)
  show ?thesis using ex by (simp add: G_unfold tok)
qed

theorem default_chain_omission_witness:
  "snd (parseAssetAndNativeAsset ''usdc'' '''') = ''ETH''
   \<and> Asset_AssetType (ToUpper (fst (parseAssetAndNativeAsset ''usdc'' ''''))) = AssetTypeToken
   \<and> GetAssetIDFromAsset ''usdc'' '''' = ''USDC''
   \<and> ToUpper (fst (parseAssetAndNativeAsset ''dai'' ''SOL'')) \<noteq>
       snd (parseAssetAndNativeAsset ''dai'' ''SOL'')
   \<and> snd (parseAssetAndNativeAsset ''dai'' ''SOL'') \<noteq> ''ETH''
   \<and> GetAssetIDFromAsset ''dai'' ''SOL'' = ''DAI.SOL''"
proof -
  have p1: "parseAssetAndNativeAsset ''usdc'' '''' = (''usdc'', ''ETH'')"
    and p2: "parseAssetAndNativeAsset ''dai'' ''SOL'' = (''dai'', ''SOL'')"
    by code_simp+
  have u1: "ToUpper ''usdc'' = ''USDC''" and u2: "ToUpper ''dai'' = ''DAI''"
    by code_simp+
  have t1: "Asset_AssetType ''USDC'' = AssetTypeToken"
    by (simp add: Asset_AssetType_def native_defs AssetTypeNative_def AssetTypeToken_def)
  from default_chain_omission [of "''usdc''" "''''"] default_chain_omission [of "''dai''" "''SOL''"]
  show ?thesis by (simp add: p1 p2 u1 u2 t1)
qed

text \<open>
  C10: classification is exact, case-sensitive string comparison. \<open>AssetType\<close> is
  \<open>native\<close> for the twenty enumerated strings and \<open>token\<close> for every other string;
  \<open>ChainType\<close> is \<open>utxo\<close> for \<open>BCH\<close>, \<open>BTC\<close>, \<open>DOGE\<close>, \<open>account\<close> for the other
  seventeen and \<open>unknown\<close> for every other string; the case variants \<open>btc\<close> and
  \<open>ARBETH\<close> are \<open>token\<close> and \<open>unknown\<close>.
\<close>

theorem classification_exact:
  "Asset_AssetType s = (if s \<in> set native_assets then AssetTypeNative else AssetTypeToken)
   \<and> NativeAsset_ChainType s =
       (if s \<in> set utxo_natives then ChainTypeUTXO
        else if s \<in> set account_natives then ChainTypeAccount else ChainTypeUnknown)
   \<and> utxo_natives = [''BCH'', ''BTC'', ''DOGE'']
   \<and> account_natives =
       [''ACA'', ''ArbETH'', ''ATOM'', ''AurETH'', ''AVAX'', ''BNB'', ''CELO'', ''ETC'', ''ETH'',
        ''FTM'', ''KAR'', ''KLAY'', ''LUNA'', ''MATIC'', ''OptETH'', ''ROSE'', ''SOL'']
   \<and> native_assets = utxo_natives @ account_natives
   \<and> AssetTypeNative \<noteq> AssetTypeToken
   \<and> ChainTypeUTXO \<noteq> ChainTypeAccount \<and> ChainTypeUTXO \<noteq> ChainTypeUnknown
   \<and> ChainTypeAccount \<noteq> ChainTypeUnknown
   \<and> Asset_AssetType ''btc'' = AssetTypeToken
   \<and> NativeAsset_ChainType ''btc'' = ChainTypeUnknown
   \<and> Asset_AssetType ''ARBETH'' = AssetTypeToken
   \<and> NativeAsset_ChainType ''ARBETH'' = ChainTypeUnknown"
proof (intro conjI)
  show "Asset_AssetType s = (if s \<in> set native_assets then AssetTypeNative else AssetTypeToken)"
  proof (cases "s \<in> set native_assets")
    case True
    then show ?thesis by (simp add: native_iff)
  next
    case False
    then have "Asset_AssetType s \<noteq> AssetTypeNative" by (simp add: native_iff)
    then have "Asset_AssetType s = AssetTypeToken"
      unfolding Asset_AssetType_def by (simp split: if_splits)
    with False show ?thesis by simp
  qed
  show "NativeAsset_ChainType s =
       (if s \<in> set utxo_natives then ChainTypeUTXO
        else if s \<in> set account_natives then ChainTypeAccount else ChainTypeUnknown)"
  proof (cases "s \<in> set utxo_natives")
    case True
    then have "s = BCH \<or> s = BTC \<or> s = DOGE" by (simp add: utxo_natives_def)
    then have "NativeAsset_ChainType s = ChainTypeUTXO"
      unfolding NativeAsset_ChainType_def by (simp only: if_True)
    with True show ?thesis by simp
  next
    case False
    then have nu: "\<not> (s = BCH \<or> s = BTC \<or> s = DOGE)" by (simp add: utxo_natives_def)
    show ?thesis
    proof (cases "s \<in> set account_natives")
      case True
      then have "s = ACA \<or> s = ArbETH \<or> s = ATOM \<or> s = AurETH
            \<or> s = AVAX \<or> s = BNB \<or> s = CELO \<or> s = ETC
            \<or> s = ETH \<or> s = FTM \<or> s = KAR \<or> s = KLAY
            \<or> s = LUNA \<or> s = MATIC \<or> s = OptETH \<or> s = ROSE
            \<or> s = SOL" by (simp add: account_natives_def)
      then have "NativeAsset_ChainType s = ChainTypeAccount"
        unfolding NativeAsset_ChainType_def using nu by (simp only: if_True if_False)
      with True False show ?thesis by simp
    next
      case na: False
      then have "\<not> (s = ACA \<or> s = ArbETH \<or> s = ATOM \<or> s = AurETH
            \<or> s = AVAX \<or> s = BNB \<or> s = CELO \<or> s = ETC
            \<or> s = ETH \<or> s = FTM \<or> s = KAR \<or> s = KLAY
            \<or> s = LUNA \<or> s = MATIC \<or> s = OptETH \<or> s = ROSE
            \<or> s = SOL)" by (simp add: account_natives_def)
      then have "NativeAsset_ChainType s = ChainTypeUnknown"
        unfolding NativeAsset_ChainType_def using nu by (simp only: if_False)
      with na False show ?thesis by simp
    qed
  qed
  show "utxo_natives = [''BCH'', ''BTC'', ''DOGE'']"
    by (simp only: utxo_natives_def native_defs)
  show "account_natives =
       [''ACA'', ''ArbETH'', ''ATOM'', ''AurETH'', ''AVAX'', ''BNB'', ''CELO'', ''ETC'', ''ETH'',
        ''FTM'', ''KAR'', ''KLAY'', ''LUNA'', ''MATIC'', ''OptETH'', ''ROSE'', ''SOL'']"
    by (simp only: account_natives_def native_defs)
  show "native_assets = utxo_natives @ account_natives"
    by (simp only: native_assets_def)
  show "AssetTypeNative \<noteq> AssetTypeToken"
    by (simp add: AssetTypeNative_def AssetTypeToken_def)
  show "ChainTypeUTXO \<noteq> ChainTypeAccount"
    by (simp add: ChainTypeUTXO_def ChainTypeAccount_def)
  show "ChainTypeUTXO \<noteq> ChainTypeUnknown"
    by (simp add: ChainTypeUTXO_def ChainTypeUnknown_def)
  show "ChainTypeAccount \<noteq> ChainTypeUnknown"
    by (simp add: ChainTypeAccount_def ChainTypeUnknown_def)
  show "Asset_AssetType ''btc'' = AssetTypeToken" by code_simp
  show "NativeAsset_ChainType ''btc'' = ChainTypeUnknown" by code_simp
  show "Asset_AssetType ''ARBETH'' = AssetTypeToken" by code_simp
  show "NativeAsset_ChainType ''ARBETH'' = ChainTypeUnknown" by code_simp
qed

subsection \<open>Amounts\<close>

text \<open>
  C9 (as stated): \<open>Uint64()\<close> returns exactly the integer an \<open>AmountBlockchain\<close>
  represents, for every value. An amount is an unbounded signed integer and the result
  a 64-bit word: \<open>2 ^ 64\<close> converts to 0, and \<open>- 1\<close> to 1.
\<close>

theorem uint64_exact_counterexample:
  "uint (AmountBlockchain_Uint64 (2 ^ 64)) \<noteq> 2 ^ 64 \<and> uint (AmountBlockchain_Uint64 (- 1)) \<noteq> - 1"
  by (simp add: AmountBlockchain_Uint64_def)

text \<open>
  C9 (amended): \<open>Uint64()\<close> returns exactly the integer \<open>v\<close> when \<open>0 \<le> v < 2 ^ 64\<close>,
  and \<open>Uint64\<close> after \<open>NewAmountBlockchainFromUint64\<close> is the identity on 64-bit
  words; in general the result is the magnitude of \<open>v\<close> modulo \<open>2 ^ 64\<close>.
\<close>

theorem uint64_exact_in_range:
  "(0 \<le> v \<and> v < 2 ^ 64 \<longrightarrow> uint (AmountBlockchain_Uint64 v) = v)
   \<and> AmountBlockchain_Uint64 (NewAmountBlockchainFromUint64 u) = u
   \<and> uint (AmountBlockchain_Uint64 v) = \<bar>v\<bar> mod 2 ^ 64"
  by (simp add: AmountBlockchain_Uint64_def NewAmountBlockchainFromUint64_def uint_word_of_int
      take_bit_eq_mod)

theorem uint64_exact_in_range_witness:
  "(0::int) \<le> 1000000 \<and> (1000000::int) < 2 ^ 64
   \<and> uint (AmountBlockchain_Uint64 1000000) = 1000000"
  using uint64_exact_in_range [of 1000000 0] by simp

subsection \<open>The Cosmos adapter\<close>

text \<open>
  C3 (as stated): after \<open>ParseTransfer\<close>, \<open>From()\<close>, \<open>To()\<close> and \<open>Amount()\<close> read
  the first recognized transfer of the message list, not a later one. The loop assigns
  every \<open>MsgSend\<close> it meets and does not stop, so with two transfers the second is
  projected.
\<close>

theorem first_transfer_counterexample:
  "first_transfer two_sends = Some (MsgSend ''alice'' ''bob'' [coin ''uatom'' 5])
   \<and> Tx_ParseTransfer two_sends_tx = Returns two_sends_parsed
   \<and> Tx_From two_sends_parsed = ''carol'' \<and> Tx_From two_sends_parsed \<noteq> ''alice''
   \<and> Tx_To two_sends_parsed = ''dave'' \<and> Tx_To two_sends_parsed \<noteq> ''bob''
   \<and> Tx_Amount two_sends_parsed = Returns 7 \<and> Tx_Amount two_sends_parsed \<noteq> Returns 5"
  by (simp add: first_transfer_def is_transfer_def two_sends_def Tx_ParseTransfer_def
      two_sends_tx_def two_sends_parsed_def empty_tx_def Tx_From_def Tx_To_def Tx_Amount_def
      coin_def)

text \<open>
  C3 (amended): for every transaction whose message list contains a recognized transfer,
  \<open>ParseTransfer\<close> returns, changes nothing but \<open>ParsedTransfer\<close>, and projects the
  last \<open>MsgSend\<close> of the list: \<open>From()\<close> and \<open>To()\<close> are its addresses and
  \<open>Amount()\<close> is the amount of its first coin when it carries one; messages of
  other kinds are skipped.
\<close>

theorem parse_transfer_projects_last:
  assumes "CosmosTx tx = Some t" and "last_transfer (GetMsgs t) = Some m"
  shows "Tx_ParseTransfer tx = Returns (tx\<lparr>ParsedTransfer := Some m\<rparr>)
       \<and> is_transfer m \<and> m \<in> set (GetMsgs t)
       \<and> Tx_From (tx\<lparr>ParsedTransfer := Some m\<rparr>) = FromAddress m
       \<and> Tx_To (tx\<lparr>ParsedTransfer := Some m\<rparr>) = ToAddress m
       \<and> (Amount m \<noteq> [] \<longrightarrow>
            Tx_Amount (tx\<lparr>ParsedTransfer := Some m\<rparr>) = Returns (Coin_Amount (Amount m ! 0)))"
proof -
  have p: "Tx_ParseTransfer tx = Returns (tx\<lparr>ParsedTransfer := Some m\<rparr>)"
    using assms by (simp add: Tx_ParseTransfer_def parse_loop_last)
  from assms(2) obtain i where i: "i < length (rev (GetMsgs t))"
    and ti: "is_transfer (rev (GetMsgs t) ! i)" and mi: "rev (GetMsgs t) ! i = m"
    unfolding last_transfer_def find_Some_iff by blast
  from i have "rev (GetMsgs t) ! i \<in> set (rev (GetMsgs t))" by (rule nth_mem)
  with mi have mem: "m \<in> set (GetMsgs t)" by simp
  from ti mi have tm: "is_transfer m" by simp
  from tm obtain f to a where m: "m = MsgSend f to a"
    by (cases m) (simp_all add: is_transfer_def)
  show ?thesis using p tm mem by (simp add: m Tx_From_def Tx_To_def Tx_Amount_def)
qed

theorem parse_transfer_projects_last_witness:
  "CosmosTx two_sends_tx = Some \<lparr>GetMsgs = two_sends, GetFee = None\<rparr>
   \<and> last_transfer two_sends = Some (MsgSend ''carol'' ''dave'' [coin ''uatom'' 7])
   \<and> Tx_ParseTransfer two_sends_tx =
       Returns (two_sends_tx\<lparr>ParsedTransfer := Some (MsgSend ''carol'' ''dave'' [coin ''uatom'' 7])\<rparr>)
   \<and> Tx_Amount (two_sends_tx\<lparr>ParsedTransfer := Some (MsgSend ''carol'' ''dave'' [coin ''uatom'' 7])\<rparr>)
       = Returns 7"
proof -
  have c: "CosmosTx two_sends_tx = Some \<lparr>GetMsgs = two_sends, GetFee = None\<rparr>"
    by (simp add: two_sends_tx_def empty_tx_def)
  have l: "last_transfer (GetMsgs \<lparr>GetMsgs = two_sends, GetFee = None\<rparr>)
      = Some (MsgSend ''carol'' ''dave'' [coin ''uatom'' 7])"
    by (simp add: last_transfer_def two_sends_def is_transfer_def)
  from parse_transfer_projects_last [OF c l] c l show ?thesis by (simp add: coin_def)
qed

text \<open>
  C4: \<open>Amount()\<close>, \<open>Fee()\<close> and \<open>AddSignature()\<close> complete without panicking on
  every transaction value. They do not: \<open>Amount()\<close> panics on a transfer that carries
  no coin, \<open>Fee()\<close> on a fee-bearing transaction with an empty fee list, and
  \<open>AddSignature()\<close> on a first signer slot whose data is not single-signature data.
  (With a coin, a fee entry and single-signature data they return:
  \<open>accessors_return\<close>.)
\<close>

theorem accessors_panic:
  "Tx_Amount no_coin_tx = Panics IndexOutOfRange
   \<and> Tx_Fee zero_fee_tx = Panics IndexOutOfRange
   \<and> Tx_AddSignature multisig_tx [1, 2] = Panics InterfaceConversion"
  by (simp add: Tx_Amount_def Tx_Fee_def Tx_AddSignature_def no_coin_tx_def zero_fee_tx_def
      multisig_tx_def empty_tx_def elems_def)

text \<open>
  C6: \<open>Sighash()\<close> returns the error \<open>transaction not initialized\<close> exactly when
  \<open>TxDataToSign\<close> is \<open>nil\<close>, and the payload with no error otherwise;
  \<open>AddSignature()\<close> returns that error exactly when the signer-slot list is \<open>nil\<close>
  or empty or the builder is \<open>nil\<close>, and in that case it returns (it does not panic)
  and leaves the transaction as it was.
\<close>

theorem uninitialized_errors:
  "(snd (Tx_Sighash tx) \<noteq> None \<longleftrightarrow> TxDataToSign tx = None)
   \<and> (TxDataToSign tx = None \<longrightarrow>
        Tx_Sighash tx = (None, Some ''transaction not initialized''))
   \<and> (TxDataToSign tx \<noteq> None \<longrightarrow> Tx_Sighash tx = (TxDataToSign tx, None))
   \<and> ((\<exists>tx'. Tx_AddSignature tx signature = Returns (Some ''transaction not initialized'', tx'))
        \<longleftrightarrow> (SigsV2 tx = None \<or> elems (SigsV2 tx) = [] \<or> CosmosTxBuilder tx = None))
   \<and> (SigsV2 tx = None \<or> elems (SigsV2 tx) = [] \<or> CosmosTxBuilder tx = None \<longrightarrow>
        Tx_AddSignature tx signature = Returns (Some ''transaction not initialized'', tx))
   \<and> (\<not> (SigsV2 tx = None \<or> elems (SigsV2 tx) = [] \<or> CosmosTxBuilder tx = None) \<longrightarrow>
        (\<exists>tx'. Tx_AddSignature tx signature = Returns (None, tx'))
        \<or> Tx_AddSignature tx signature = Panics InterfaceConversion)"
proof -
  have s: "(snd (Tx_Sighash tx) \<noteq> None \<longleftrightarrow> TxDataToSign tx = None)
     \<and> (TxDataToSign tx = None \<longrightarrow>
          Tx_Sighash tx = (None, Some ''transaction not initialized''))
     \<and> (TxDataToSign tx \<noteq> None \<longrightarrow> Tx_Sighash tx = (TxDataToSign tx, None))"
    by (simp add: Tx_Sighash_def)
  show ?thesis
  proof (cases "SigsV2 tx = None \<or> elems (SigsV2 tx) = [] \<or> CosmosTxBuilder tx = None")
    case True
    then have "Tx_AddSignature tx signature = Returns (Some ''transaction not initialized'', tx)"
      by (auto simp add: Tx_AddSignature_def)
    with True s show ?thesis by simp
  next
    case False
    then have "(\<exists>tx'. Tx_AddSignature tx signature = Returns (None, tx'))
        \<or> Tx_AddSignature tx signature = Panics InterfaceConversion"
      by (auto simp add: Tx_AddSignature_def Let_def split: option.splits SignatureData.splits)
    with False s show ?thesis by auto
  qed
qed

theorem uninitialized_errors_witness:
  "TxDataToSign empty_tx = None
   \<and> Tx_Sighash empty_tx = (None, Some ''transaction not initialized'')
   \<and> SigsV2 empty_tx = None
   \<and> Tx_AddSignature empty_tx [7] = Returns (Some ''transaction not initialized'', empty_tx)
   \<and> TxDataToSign built_tx \<noteq> None
   \<and> Tx_Sighash built_tx = (Some [1, 2, 3], None)
   \<and> \<not> (SigsV2 built_tx = None \<or> elems (SigsV2 built_tx) = [] \<or> CosmosTxBuilder built_tx = None)
   \<and> Tx_AddSignature built_tx [7] \<noteq> Returns (Some ''transaction not initialized'', built_tx)"
  using uninitialized_errors [of empty_tx "[7]"] uninitialized_errors [of built_tx "[7]"]
  by (simp add: empty_tx_def built_tx_def elems_def)

text \<open>
  C7: \<open>Hash()\<close> returns the empty string exactly when \<open>Serialize()\<close> returns an
  error, \<open>nil\<close> or no bytes; otherwise it returns the hex encoding of the digest of the
  serialized bytes, which is not empty (64 digits for a 32-byte digest). \<open>Hash\<close> has
  no error result and no partial operation.
\<close>

theorem hash_empty_sentinel:
  assumes digest: "\<And>b. length (tmhash_Sum b) = 32"
  shows "(Tx_Hash tmhash_Sum tx = [] \<longleftrightarrow>
            (snd (Tx_Serialize tx) \<noteq> None \<or> fst (Tx_Serialize tx) = None
             \<or> fst (Tx_Serialize tx) = Some []))
       \<and> (\<forall>serialized. Tx_Serialize tx = (Some serialized, None) \<and> serialized \<noteq> [] \<longrightarrow>
             Tx_Hash tmhash_Sum tx = EncodeToString (tmhash_Sum serialized)
             \<and> length (Tx_Hash tmhash_Sum tx) = 64)"
proof -
  have ne: "EncodeToString (tmhash_Sum b) \<noteq> []" for b
    using digest [of b] by (auto simp add: EncodeToString_empty_iff)
  obtain serialized err where r: "Tx_Serialize tx = (serialized, err)"
    by (cases "Tx_Serialize tx")
  show ?thesis
    using ne digest
    by (cases serialized) (auto simp add: Tx_Hash_def r elems_def EncodeToString_length)
qed

theorem hash_empty_sentinel_witness:
  "(\<forall>b :: bytes. length (replicate 32 (of_nat (length b)) :: bytes) = 32)
   \<and> Tx_Serialize built_tx = (Some [3], None)
   \<and> Tx_Hash (\<lambda>b. replicate 32 (of_nat (length b))) built_tx
        = EncodeToString (replicate 32 1)
   \<and> length (Tx_Hash (\<lambda>b. replicate 32 (of_nat (length b))) built_tx) = 64
   \<and> snd (Tx_Serialize empty_tx) \<noteq> None
   \<and> Tx_Hash (\<lambda>b. replicate 32 (of_nat (length b))) empty_tx = []"
proof -
  have d: "\<And>b :: bytes. length (replicate 32 (of_nat (length b)) :: bytes) = 32" by simp
  have s: "Tx_Serialize built_tx = (Some [3], None)"
    by (simp add: Tx_Serialize_def built_tx_def two_sends_def)
  have e: "snd (Tx_Serialize empty_tx) \<noteq> None"
    by (simp add: Tx_Serialize_def empty_tx_def)
  from hash_empty_sentinel [of "\<lambda>b. replicate 32 (of_nat (length b))" built_tx, OF d]
    hash_empty_sentinel [of "\<lambda>b. replicate 32 (of_nat (length b))" empty_tx, OF d] s e
  show ?thesis by (simp add: EncodeToString_length)
qed

text \<open>
  C8: for every public key, \<open>GetAllPossibleAddressesFromPublicKey\<close> returns exactly one
  entry, tagged with the default variant, carrying the address that
  \<open>GetAddressFromPublicKey\<close> returned, paired with its error. The Cosmos builder's
  derivation always fails with \<open>not implemented\<close> and the empty address, so the paired
  error is never \<open>nil\<close>: no entry with a \<open>nil\<close> error and an empty address exists.
\<close>

theorem address_derivation_single_default:
  "GetAllPossibleAddressesFromPublicKey publicKeyBytes =
     ([\<lparr>Address = fst (GetAddressFromPublicKey publicKeyBytes), Type = AddressTypeDefault\<rparr>],
      snd (GetAddressFromPublicKey publicKeyBytes))
   \<and> length (fst (GetAllPossibleAddressesFromPublicKey publicKeyBytes)) = 1
   \<and> GetAddressFromPublicKey publicKeyBytes = ('''', Some ''not implemented'')
   \<and> snd (GetAllPossibleAddressesFromPublicKey publicKeyBytes) = Some ''not implemented''"
  by (simp add: GetAllPossibleAddressesFromPublicKey_def GetAddressFromPublicKey_def)

end
